theory Spec2Isabelle
  imports Complex_Main "HOL-Library.Sublist" "HOL-Library.Product_Lexorder" "HOL-Library.Multiset"
begin

section \<open>The command-line interface of traversome: \<^verbatim>\<open>src/traversome/__main__.py\<close>\<close>

text \<open>
  The module holds the \<^verbatim>\<open>thorough\<close> command, \<^verbatim>\<open>initialize\<close> and
  \<^verbatim>\<open>setup_simple_logger\<close>. The estimator itself (the class \<^verbatim>\<open>Traversome\<close> of
  \<^verbatim>\<open>traversome.traversome\<close>) is imported by the command and is not part of the module:
  the model takes it as a parameter, and the builtin \<^verbatim>\<open>eval\<close> as another.

  Python values are modelled as follows. A \<^verbatim>\<open>str\<close> is a \<^typ>\<open>string\<close> whose
  characters are the code points U+0000 to U+00FF; an \<^verbatim>\<open>int\<close> is an \<^typ>\<open>int\<close>;
  a \<^verbatim>\<open>float\<close> is the rational number its decimal text denotes (the rounding to a
  double is not modelled); a resolved \<^verbatim>\<open>pathlib.Path\<close> is the list of its components
  below the root; an exception is a value of \<open>pyexc\<close>.
\<close>

subsection \<open>Enumerations of the module\<close>

datatype LogLevel = TRACE | DEBUG | INFO | WARNING | ERROR

datatype VarGen = Heuristic | Provided

datatype ModelSelectionMode = AIC | BIC | Single

datatype ChTopology = circular | unconstrained_topology | none_topology

datatype ChComposition = single | unconstrained_composition | none_composition

datatype Previous = terminate | resume | overwrite

subsection \<open>Paths and exceptions\<close>

type_synonym path = "string list"

text \<open>\<^verbatim>\<open>str(path)\<close> of a resolved path: the components joined by slashes below the root.\<close>

fun str_of_path :: "path \<Rightarrow> string" where
  "str_of_path [] = ''/''"
| "str_of_path [c] = CHR ''/'' # c"
| "str_of_path (c # cs) = CHR ''/'' # c @ str_of_path cs"

definition joinpath :: "path \<Rightarrow> string \<Rightarrow> path" where
  "joinpath p name = p @ [name]"

text \<open>
  The exceptions that occur. Each constructor stands for a class of Python with its
  subclasses, as an \<^verbatim>\<open>except\<close> clause reads it. \<open>SystemExit\<close> is what
  \<^verbatim>\<open>sys.exit()\<close> raises; its exit status is not modelled. \<open>OtherException\<close> stands
  for a class that is none of these, by its name (the estimator's own failures among
  them).
\<close>

datatype pyexc =
    SystemExit
  | FileNotFoundError path
  | FileExistsError path
  | NotADirectoryError path
  | IsADirectoryError path
  | AssertionError string
  | TypeError string
  | ValueError string
  | SyntaxError
  | NameError string
  | OtherException string

subsection \<open>The string methods and conversions the command uses\<close>

definition is_ascii_digit :: "char \<Rightarrow> bool" where
  "is_ascii_digit c = (48 \<le> (of_char c :: nat) \<and> (of_char c :: nat) \<le> 57)"

text \<open>
  \<^verbatim>\<open>str.isdigit\<close>: every character is a digit and there is at least one. Below U+0100
  the digits are 0 to 9 and the superscripts U+00B2, U+00B3 and U+00B9.
\<close>

definition char_isdigit :: "char \<Rightarrow> bool" where
  "char_isdigit c = (is_ascii_digit c \<or> (of_char c :: nat) \<in> {178, 179, 185})"

definition isdigit :: "string \<Rightarrow> bool" where
  "isdigit s = (s \<noteq> [] \<and> list_all char_isdigit s)"

definition digit_val :: "char \<Rightarrow> nat" where
  "digit_val c = (of_char c :: nat) - 48"

text \<open>The value of a run of decimal digits, most significant first.\<close>

definition decimal :: "string \<Rightarrow> nat" where
  "decimal s = foldl (\<lambda>n c. 10 * n + digit_val c) 0 s"

text \<open>
  What a Python computation does: it returns a value, it raises, or the model does not
  say (\<open>Unmodelled\<close>).
\<close>

datatype 'a result = Return 'a | Raise pyexc | Unmodelled

text \<open>
  \<^verbatim>\<open>int(s)\<close> on a string for which \<^verbatim>\<open>s.isdigit()\<close> holds: leading zeros are
  accepted; a superscript digit is not a decimal digit, and raises \<^verbatim>\<open>ValueError\<close>
  (the payload is the offending string). Some versions of Python refuse to convert a
  long string of digits, at a limit that can be set to 640 digits and no lower: beyond 640
  digits the model does not say.
\<close>

definition int_of_digits :: "string \<Rightarrow> int result" where
  "int_of_digits s =
     (if s \<noteq> [] \<and> list_all is_ascii_digit s
      then (if length s \<le> 640 then Return (int (decimal s)) else Unmodelled)
      else Raise (ValueError s))"

text \<open>
  The white space that \<^verbatim>\<open>float\<close> strips from both ends of its argument: the tab,
  the line feed, the vertical tab, the form feed, the carriage return and the space, and
  of the characters from U+007F to U+00FF the two for which \<^verbatim>\<open>str.isspace\<close> holds,
  U+0085 and U+00A0 (\<^verbatim>\<open>float\<close> first rewrites each of these as a space, and leaves
  every character below U+007F as it is, the separators U+001C to U+001F among them).
\<close>

definition is_space :: "char \<Rightarrow> bool" where
  "is_space c = ((of_char c :: nat) \<in> {9, 10, 11, 12, 13, 32, 133, 160})"

definition strip :: "string \<Rightarrow> string" where
  "strip s = rev (dropWhile is_space (rev (dropWhile is_space s)))"

text \<open>
  An underscore of a numeric string stands between two digits: \<open>prev\<close> is the character
  before, \<open>None\<close> at the start.
\<close>

fun underscores_ok :: "char option \<Rightarrow> string \<Rightarrow> bool" where
  "underscores_ok prev [] = (prev \<noteq> Some (CHR ''_''))"
| "underscores_ok prev (c # cs) =
     (if c = CHR ''_''
      then (case prev of None \<Rightarrow> False | Some q \<Rightarrow> is_ascii_digit q) \<and> underscores_ok (Some c) cs
      else (prev = Some (CHR ''_'') \<longrightarrow> is_ascii_digit c) \<and> underscores_ok (Some c) cs)"

text \<open>
  A Python \<^verbatim>\<open>float\<close>: \<open>PyFloat q\<close> stands for the double nearest to the rational
  \<open>q\<close>.
\<close>

datatype pyfloat = PyFloat rat | PyInf | PyNegInf | PyNaN

definition to_lower :: "char \<Rightarrow> char" where
  "to_lower c =
     (if 65 \<le> (of_char c :: nat) \<and> (of_char c :: nat) \<le> 90 then char_of ((of_char c :: nat) + 32) else c)"

definition scale10 :: "nat \<Rightarrow> int \<Rightarrow> rat" where
  "scale10 m k = (if 0 \<le> k then of_nat m * 10 ^ nat k else of_nat m / 10 ^ nat (- k))"

text \<open>The exponent part of a float literal: nothing, or e or E, an optional sign, digits.\<close>

definition exponent :: "string \<Rightarrow> int option" where
  "exponent s =
     (case s of
        [] \<Rightarrow> Some 0
      | c # r \<Rightarrow>
          if c = CHR ''e'' \<or> c = CHR ''E'' then
            (case r of
               [] \<Rightarrow> None
             | d # r' \<Rightarrow>
                 if d = CHR ''-'' then
                   (if r' \<noteq> [] \<and> list_all is_ascii_digit r' then Some (- int (decimal r')) else None)
                 else if d = CHR ''+'' then
                   (if r' \<noteq> [] \<and> list_all is_ascii_digit r' then Some (int (decimal r')) else None)
                 else if list_all is_ascii_digit r then Some (int (decimal r)) else None)
          else None)"

text \<open>
  The unsigned part of a float literal: inf, infinity or nan in any case, or digits with an
  optional point and an optional exponent, at least one digit before the exponent.
\<close>

definition unsigned_float :: "string \<Rightarrow> pyfloat option" where
  "unsigned_float u =
     (if map to_lower u = ''inf'' \<or> map to_lower u = ''infinity'' then Some PyInf
      else if map to_lower u = ''nan'' then Some PyNaN
      else
        (let ip = takeWhile is_ascii_digit u;
             r1 = dropWhile is_ascii_digit u;
             fp = (case r1 of [] \<Rightarrow> [] | c # r \<Rightarrow> if c = CHR ''.'' then takeWhile is_ascii_digit r else []);
             r2 = (case r1 of [] \<Rightarrow> [] | c # r \<Rightarrow> if c = CHR ''.'' then dropWhile is_ascii_digit r else r1)
         in if ip = [] \<and> fp = [] then None
            else (case exponent r2 of
                    None \<Rightarrow> None
                  | Some e \<Rightarrow> Some (PyFloat (scale10 (decimal (ip @ fp)) (e - int (length fp)))))))"

definition negate :: "pyfloat \<Rightarrow> pyfloat" where
  "negate f = (case f of PyFloat q \<Rightarrow> PyFloat (- q) | PyInf \<Rightarrow> PyNegInf | PyNegInf \<Rightarrow> PyInf | PyNaN \<Rightarrow> PyNaN)"

text \<open>
  \<^verbatim>\<open>float(s)\<close>: underscores stand between digits only and are dropped, white space
  is stripped from both ends, a sign may lead. Anything else raises \<^verbatim>\<open>ValueError\<close>
  (the payload is the string).
\<close>

definition py_float :: "string \<Rightarrow> pyexc + pyfloat" where
  "py_float s =
     (if \<not> underscores_ok None s then Inl (ValueError s)
      else
        (let u = strip (filter (\<lambda>c. c \<noteq> CHR ''_'') s) in
         case u of
           [] \<Rightarrow> Inl (ValueError s)
         | c # r \<Rightarrow>
             if c = CHR ''-'' then
               (case unsigned_float r of None \<Rightarrow> Inl (ValueError s) | Some f \<Rightarrow> Inr (negate f))
             else if c = CHR ''+'' then
               (case unsigned_float r of None \<Rightarrow> Inl (ValueError s) | Some f \<Rightarrow> Inr f)
             else
               (case unsigned_float u of None \<Rightarrow> Inl (ValueError s) | Some f \<Rightarrow> Inr f)))"

subsection \<open>The file system\<close>

text \<open>
  The file system is a table from paths to nodes, in the order a directory listing gives
  them; the root is a directory. Permissions, links and the contents of files are not
  modelled.
\<close>

datatype node = Dir | File

type_synonym filesystem = "(path \<times> node) list"

definition fs_lookup :: "filesystem \<Rightarrow> path \<Rightarrow> node option" where
  "fs_lookup fs p = (if p = [] then Some Dir else map_of fs p)"

definition path_exists :: "filesystem \<Rightarrow> path \<Rightarrow> bool" where
  "path_exists fs p = (fs_lookup fs p \<noteq> None)"

definition isdir :: "filesystem \<Rightarrow> path \<Rightarrow> bool" where
  "isdir fs p = (fs_lookup fs p = Some Dir)"

text \<open>\<^verbatim>\<open>os.mkdir\<close>: the path must be new and its parent a directory.\<close>

definition mkdir :: "path \<Rightarrow> filesystem \<Rightarrow> pyexc + filesystem" where
  "mkdir p fs =
     (if path_exists fs p then Inl (FileExistsError p)
      else (case fs_lookup fs (butlast p) of
              None \<Rightarrow> Inl (FileNotFoundError p)
            | Some File \<Rightarrow> Inl (NotADirectoryError p)
            | Some Dir \<Rightarrow> Inr (fs @ [(p, Dir)])))"

text \<open>
  \<^verbatim>\<open>os.makedirs(name, exist_ok=...)\<close> of the standard library:
  \<^verbatim>\<open>
  head, tail = path.split(name)
  if head and tail and not path.exists(head):
      try:
          makedirs(head, exist_ok=exist_ok)
      except FileExistsError:
          pass
  try:
      mkdir(name, mode)
  except OSError:
      if not exist_ok or not path.isdir(name):
          raise
  \<close>
  \<open>mkdir_exist_ok\<close> is the second \<^verbatim>\<open>try\<close> statement. The path of the root is the
  empty list, so \<open>p \<noteq> []\<close> and \<open>butlast p \<noteq> []\<close> are \<^verbatim>\<open>tail\<close> and \<^verbatim>\<open>head\<close>
  below the root.
\<close>

definition mkdir_exist_ok :: "path \<Rightarrow> bool \<Rightarrow> filesystem \<Rightarrow> (pyexc + unit) \<times> filesystem" where
  "mkdir_exist_ok p exist_ok fs =
     (case mkdir p fs of
        Inl e \<Rightarrow> (if \<not> exist_ok \<or> \<not> isdir fs p then Inl e else Inr (), fs)
      | Inr fs1 \<Rightarrow> (Inr (), fs1))"

function makedirs :: "path \<Rightarrow> bool \<Rightarrow> filesystem \<Rightarrow> (pyexc + unit) \<times> filesystem" where
  "makedirs p exist_ok fs =
     (if p \<noteq> [] \<and> butlast p \<noteq> [] \<and> \<not> path_exists fs (butlast p)
      then (case makedirs (butlast p) exist_ok fs of
              (Inl (FileExistsError q), fs1) \<Rightarrow> mkdir_exist_ok p exist_ok fs1
            | (Inl e, fs1) \<Rightarrow> (Inl e, fs1)
            | (Inr u, fs1) \<Rightarrow> mkdir_exist_ok p exist_ok fs1)
      else mkdir_exist_ok p exist_ok fs)"
  by pat_completeness auto
termination
  by (relation "measure (\<lambda>(p, exist_ok, fs). length p)") auto

declare makedirs.simps [simp del]

text \<open>
  \<^verbatim>\<open>shutil.rmtree(p, ignore_errors=True)\<close>: a directory goes with everything below it;
  on anything else the call fails, and the failure is ignored.
\<close>

definition rmtree_ignore_errors :: "path \<Rightarrow> filesystem \<Rightarrow> filesystem" where
  "rmtree_ignore_errors p fs = (if isdir fs p then filter (\<lambda>(q, n). \<not> prefix p q) fs else fs)"

text \<open>
  \<^verbatim>\<open>output_dir.glob("*.*")\<close>: the entries of the directory whose name has a dot, in
  the order of the listing.
\<close>

definition glob_dotted :: "path \<Rightarrow> filesystem \<Rightarrow> path list" where
  "glob_dotted d fs =
     (if isdir fs d
      then remdups (filter (\<lambda>q. q \<noteq> [] \<and> butlast q = d \<and> CHR ''.'' \<in> set (last q)) (map fst fs))
      else [])"

text \<open>
  \<^verbatim>\<open>os.remove\<close>: removes a file; a directory raises (\<open>IsADirectoryError\<close>, as on
  Linux).
\<close>

definition os_remove :: "path \<Rightarrow> filesystem \<Rightarrow> pyexc + filesystem" where
  "os_remove f fs =
     (case fs_lookup fs f of
        None \<Rightarrow> Inl (FileNotFoundError f)
      | Some Dir \<Rightarrow> Inl (IsADirectoryError f)
      | Some File \<Rightarrow> Inr (filter (\<lambda>(q, n). q \<noteq> f) fs))"

text \<open>The loop \<^verbatim>\<open>for exist_f in ...: os.remove(exist_f)\<close>: it stops at the first failure.\<close>

fun remove_each :: "path list \<Rightarrow> filesystem \<Rightarrow> (pyexc + unit) \<times> filesystem" where
  "remove_each [] fs = (Inr (), fs)"
| "remove_each (f # fs') fs =
     (case os_remove f fs of Inl e \<Rightarrow> (Inl e, fs) | Inr fs1 \<Rightarrow> remove_each fs' fs1)"

text \<open>
  Lines 380 to 383 of \<^verbatim>\<open>initialize\<close>:
  \<^verbatim>\<open>
  rmdir(output_dir.joinpath("paths"), ignore_errors=True)
  rmdir(output_dir.joinpath("theano.cache"), ignore_errors=True)
  for exist_f in output_dir.glob("*.*"):
      os.remove(exist_f)
  \<close>
\<close>

definition clear_previous :: "path \<Rightarrow> filesystem \<Rightarrow> (pyexc + unit) \<times> filesystem" where
  "clear_previous output_dir fs =
     (let fs1 = rmtree_ignore_errors (joinpath output_dir ''paths'') fs;
          fs2 = rmtree_ignore_errors (joinpath output_dir ''theano.cache'') fs1
      in remove_each (glob_dotted output_dir fs2) fs2)"

subsection \<open>The process and the logger\<close>

datatype sink = FileSink path | StdoutSink

text \<open>
  The records the command logs: the two headers of the module, the record of
  \<^verbatim>\<open>logger.exception("")\<close> with the exception being handled, and the total cost (the
  elapsed time it prints is not modelled).
\<close>

datatype log_message = RUNNING_HEAD | RUNNING_ENV_INFO | ExceptionRecord pyexc | TotalCost

text \<open>
  What the command reads and changes: the file system, the standard error stream, the
  environment variables, the handlers of the logger (each a sink and its level) and the
  records the sinks have received.
\<close>

record world =
  filesys :: filesystem
  stderr :: "string list"
  environ :: "string \<Rightarrow> string option"
  handlers :: "(sink \<times> LogLevel) list"
  delivered :: "(sink \<times> LogLevel \<times> log_message) list"

fun level_no :: "LogLevel \<Rightarrow> nat" where
  "level_no TRACE = 5"
| "level_no DEBUG = 10"
| "level_no INFO = 20"
| "level_no WARNING = 30"
| "level_no ERROR = 40"

text \<open>A call of the logger: every handler whose level is not above the record's gets it.\<close>

definition logger_log :: "LogLevel \<Rightarrow> log_message \<Rightarrow> world \<Rightarrow> world" where
  "logger_log lvl msg w =
     w\<lparr>delivered := delivered w @
          map (\<lambda>(s, hl). (s, lvl, msg)) (filter (\<lambda>(s, hl). level_no hl \<le> level_no lvl) (handlers w))\<rparr>"

definition logger_info :: "log_message \<Rightarrow> world \<Rightarrow> world" where
  "logger_info msg w = logger_log INFO msg w"

definition logger_exception :: "pyexc \<Rightarrow> world \<Rightarrow> world" where
  "logger_exception e w = logger_log ERROR (ExceptionRecord e) w"

text \<open>
  Adding a handler opens its sink. A file is opened for appending: it is created when it
  is not there, and a directory in its place raises.
\<close>

definition open_sink :: "sink \<Rightarrow> filesystem \<Rightarrow> pyexc + filesystem" where
  "open_sink s fs =
     (case s of
        StdoutSink \<Rightarrow> Inr fs
      | FileSink p \<Rightarrow>
          (case fs_lookup fs p of
             Some Dir \<Rightarrow> Inl (IsADirectoryError p)
           | Some File \<Rightarrow> Inr fs
           | None \<Rightarrow> if isdir fs (butlast p) then Inr (fs @ [(p, File)]) else Inl (FileNotFoundError p)))"

fun add_handlers :: "sink list \<Rightarrow> LogLevel \<Rightarrow> world \<Rightarrow> (pyexc + unit) \<times> world" where
  "add_handlers [] lvl w = (Inr (), w)"
| "add_handlers (s # ss) lvl w =
     (case open_sink s (filesys w) of
        Inl e \<Rightarrow> (Inl e, w)
      | Inr fs1 \<Rightarrow> add_handlers ss lvl (w\<lparr>filesys := fs1, handlers := handlers w @ [(s, lvl)]\<rparr>))"

text \<open>
  \<^verbatim>\<open>setup_simple_logger\<close>: \<^verbatim>\<open>logger.configure\<close> drops the handlers there are and adds
  one for each sink of the list, all at the given level.
\<close>

definition setup_simple_logger :: "sink list \<Rightarrow> LogLevel \<Rightarrow> world \<Rightarrow> (pyexc + unit) \<times> world" where
  "setup_simple_logger sink_list loglevel w = add_handlers sink_list loglevel (w\<lparr>handlers := []\<rparr>)"

subsection \<open>The builtin \<^verbatim>\<open>eval\<close> and the conversion of \<^verbatim>\<open>--graph-selection\<close>\<close>

text \<open>
  The values that an evaluation gives: an \<^verbatim>\<open>int\<close>, \<^verbatim>\<open>None\<close>, a tuple, or any
  other object, which stands by its \<^verbatim>\<open>repr\<close>.
\<close>

datatype pyval = PyInt int | PyNone | PyTuple "pyval list" | PyOther string

text \<open>
  The builtin \<^verbatim>\<open>eval\<close> is not code of the module, and an expression may do anything:
  the interpreter is a parameter. \<open>py_eval s w\<close> is what \<^verbatim>\<open>eval(s)\<close> does in the
  world \<open>w\<close>, with the globals of the module and the locals of \<^verbatim>\<open>thorough\<close>: the
  value it returns or the exception it raises, and the world it leaves; \<open>Unmodelled\<close> is
  for an evaluation of which nothing is said, one that does not come back among them.
  \<open>py_iter r w\<close> is the same for the iteration over the object \<open>r\<close>, which gives the
  list of its items.
\<close>

record interpreter =
  py_eval :: "string \<Rightarrow> world \<Rightarrow> pyval result \<times> world"
  py_iter :: "string \<Rightarrow> world \<Rightarrow> pyval list result \<times> world"

text \<open>
  The unpacking \<^verbatim>\<open>*v\<close> of a call: a tuple gives its items, an \<^verbatim>\<open>int\<close> and
  \<^verbatim>\<open>None\<close> are not iterable, any other object is iterated. The text of this
  \<^verbatim>\<open>TypeError\<close> is not modelled.
\<close>

definition unpack :: "interpreter \<Rightarrow> pyval \<Rightarrow> world \<Rightarrow> pyval list result \<times> world" where
  "unpack py v w =
     (case v of
        PyTuple vs \<Rightarrow> (Return vs, w)
      | PyInt n \<Rightarrow> (Raise (TypeError []), w)
      | PyNone \<Rightarrow> (Raise (TypeError []), w)
      | PyOther r \<Rightarrow> py_iter py r w)"

text \<open>
  The component selection the estimator receives: an \<^verbatim>\<open>int\<close>, a \<^verbatim>\<open>float\<close> or a
  \<^verbatim>\<open>slice\<close> with its start, stop and step.
\<close>

datatype selection = SelInt int | SelFloat pyfloat | SelSlice pyval pyval pyval

text \<open>
  \<^verbatim>\<open>slice\<close> takes one to three arguments, of any kind. The text of this
  \<^verbatim>\<open>TypeError\<close> is not modelled either.
\<close>

definition slice_of :: "pyval list \<Rightarrow> pyexc + selection" where
  "slice_of args =
     (case args of
        [a] \<Rightarrow> Inr (SelSlice PyNone a PyNone)
      | [a, b] \<Rightarrow> Inr (SelSlice a b PyNone)
      | [a, b, c] \<Rightarrow> Inr (SelSlice a b c)
      | _ \<Rightarrow> Inl (TypeError []))"

text \<open>
  Lines 311 to 319 of \<^verbatim>\<open>thorough\<close>: the conversion of \<^verbatim>\<open>--graph-selection\<close>.
  \<^verbatim>\<open>
  if graph_component_selection.isdigit():
      graph_component_selection = int(graph_component_selection)
  elif "." in graph_component_selection:
      graph_component_selection = float(graph_component_selection)
  else:
      try:
          graph_component_selection = slice(*eval(graph_component_selection))
      except (SyntaxError, TypeError):
          raise TypeError(str(graph_component_selection) + " is invalid for --graph-selection!")
  \<close>
  \<open>slice_of_eval\<close> is the statement inside the inner \<^verbatim>\<open>try\<close>: the evaluation, the
  unpacking, the call of \<^verbatim>\<open>slice\<close>.
\<close>

definition invalid_selection :: "string \<Rightarrow> pyexc" where
  "invalid_selection s = TypeError (s @ '' is invalid for --graph-selection!'')"

definition slice_of_eval :: "interpreter \<Rightarrow> string \<Rightarrow> world \<Rightarrow> selection result \<times> world" where
  "slice_of_eval py s w =
     (case py_eval py s w of
        (Raise e, w1) \<Rightarrow> (Raise e, w1)
      | (Unmodelled, w1) \<Rightarrow> (Unmodelled, w1)
      | (Return v, w1) \<Rightarrow>
          (case unpack py v w1 of
             (Raise e, w2) \<Rightarrow> (Raise e, w2)
           | (Unmodelled, w2) \<Rightarrow> (Unmodelled, w2)
           | (Return args, w2) \<Rightarrow>
               (case slice_of args of Inl e \<Rightarrow> (Raise e, w2) | Inr sl \<Rightarrow> (Return sl, w2))))"

definition parse_graph_selection ::
  "interpreter \<Rightarrow> string \<Rightarrow> world \<Rightarrow> selection result \<times> world" where
  "parse_graph_selection py s w =
     (if isdigit s then
        (case int_of_digits s of
           Return n \<Rightarrow> (Return (SelInt n), w)
         | Raise e \<Rightarrow> (Raise e, w)
         | Unmodelled \<Rightarrow> (Unmodelled, w))
      else if CHR ''.'' \<in> set s then
        (case py_float s of Inl e \<Rightarrow> (Raise e, w) | Inr f \<Rightarrow> (Return (SelFloat f), w))
      else
        (case slice_of_eval py s w of
           (Raise SyntaxError, w1) \<Rightarrow> (Raise (invalid_selection s), w1)
         | (Raise (TypeError m), w1) \<Rightarrow> (Raise (invalid_selection s), w1)
         | r \<Rightarrow> r))"

subsection \<open>\<^verbatim>\<open>initialize\<close>\<close>

text \<open>
  \<^verbatim>\<open>
  os.makedirs(str(output_dir), exist_ok=previous in ("overwrite", "resume"))
  if previous == "overwrite" and os.path.isdir(output_dir):
      ... (the clearing above)
  logfile = os.path.join(output_dir, "traversome.log.txt")
  setup_simple_logger(sink_list=[logfile], loglevel=loglevel)
  logger.info(RUNNING_HEAD)
  setup_simple_logger(sink_list=[logfile, sys.stdout], loglevel=loglevel)
  logger.info(RUNNING_ENV_INFO)
  \<close>
\<close>

text \<open>Lines 384 to 389: the log file, the two set-ups of the logger and the two headers.\<close>

definition log_headers :: "path \<Rightarrow> LogLevel \<Rightarrow> world \<Rightarrow> (pyexc + unit) \<times> world" where
  "log_headers output_dir loglevel w =
     (let logfile = joinpath output_dir ''traversome.log.txt'' in
      case setup_simple_logger [FileSink logfile] loglevel w of
        (Inl e, w1) \<Rightarrow> (Inl e, w1)
      | (Inr u, w1) \<Rightarrow>
          (case setup_simple_logger [FileSink logfile, StdoutSink] loglevel
                  (logger_info RUNNING_HEAD w1) of
             (Inl e, w2) \<Rightarrow> (Inl e, w2)
           | (Inr u, w2) \<Rightarrow> (Inr (), logger_info RUNNING_ENV_INFO w2)))"

definition initialize :: "path \<Rightarrow> LogLevel \<Rightarrow> Previous \<Rightarrow> world \<Rightarrow> (pyexc + unit) \<times> world" where
  "initialize output_dir loglevel previous w =
     (case makedirs output_dir (previous = overwrite \<or> previous = resume) (filesys w) of
        (Inl e, fs1) \<Rightarrow> (Inl e, w\<lparr>filesys := fs1\<rparr>)
      | (Inr u, fs1) \<Rightarrow>
          (case (if previous = overwrite \<and> isdir fs1 output_dir
                 then clear_previous output_dir fs1 else (Inr (), fs1)) of
             (Inl e, fs2) \<Rightarrow> (Inl e, w\<lparr>filesys := fs2\<rparr>)
           | (Inr u, fs2) \<Rightarrow> log_headers output_dir loglevel (w\<lparr>filesys := fs2\<rparr>)))"

subsection \<open>The command \<^verbatim>\<open>thorough\<close>\<close>

text \<open>
  The parameters of the command, as typer hands them over: paths are resolved, an option
  that was not given is \<open>None\<close>, the numbers are parsed and within the bounds the
  options declare.
\<close>

record args =
  graph_file :: path
  reads_file :: "path option"
  alignment_file :: "path option"
  output_dir :: path
  var_gen_scheme :: VarGen
  min_valid_search :: int
  max_valid_search :: int
  criterion :: ModelSelectionMode
  random_seed :: int
  topology :: ChTopology
  composition :: ChComposition
  out_seq_threshold :: rat
  min_alignment_identity_cutoff :: rat
  min_alignment_len_cutoff :: int
  graph_component_selection :: string
  num_processes :: int
  n_generations :: int
  n_burn :: int
  prev_run :: Previous
  keep_temp :: bool
  log_level :: LogLevel

text \<open>The keyword arguments of \<^verbatim>\<open>Traversome(...)\<close>, lines 321 to 341.\<close>

record config =
  kw_graph :: string
  kw_alignment :: "string option"
  kw_reads_file :: "string option"
  kw_outdir :: string
  kw_model_criterion :: ModelSelectionMode
  kw_out_prob_threshold :: rat
  kw_min_valid_search :: int
  kw_max_valid_search :: int
  kw_num_processes :: int
  kw_force_circular :: bool
  kw_n_generations :: int
  kw_n_burn :: int
  kw_random_seed :: int
  kw_loglevel :: LogLevel
  kw_min_alignment_identity_cutoff :: rat
  kw_min_alignment_len_cutoff :: int
  kw_graph_component_selection :: selection
  kw_resume :: bool

definition make_config :: "args \<Rightarrow> selection \<Rightarrow> config" where
  "make_config a sel =
     \<lparr>kw_graph = str_of_path (graph_file a),
      kw_alignment = map_option str_of_path (alignment_file a),
      kw_reads_file = map_option str_of_path (reads_file a),
      kw_outdir = str_of_path (output_dir a),
      kw_model_criterion = criterion a,
      kw_out_prob_threshold = out_seq_threshold a,
      kw_min_valid_search = min_valid_search a,
      kw_max_valid_search = max_valid_search a,
      kw_num_processes = num_processes a,
      kw_force_circular = (topology a = circular),
      kw_n_generations = n_generations a,
      kw_n_burn = n_burn a,
      kw_random_seed = random_seed a,
      kw_loglevel = log_level a,
      kw_min_alignment_identity_cutoff = min_alignment_identity_cutoff a,
      kw_min_alignment_len_cutoff = min_alignment_len_cutoff a,
      kw_graph_component_selection = sel,
      kw_resume = (prev_run a = resume)\<rparr>"

text \<open>
  The estimator is the class \<^verbatim>\<open>Traversome\<close> of \<^verbatim>\<open>traversome.traversome\<close>, which the
  module imports inside the \<^verbatim>\<open>try\<close> block. Its code is not in this module, so it is a
  parameter: \<open>import_Traversome\<close> is the import of line 310, \<open>Traversome\<close> the
  construction from the keyword arguments, \<open>run\<close> the method, with the path generating
  scheme and \<^verbatim>\<open>uni_chromosome\<close>. Each returns or raises, and leaves the world as it
  likes.
\<close>

record 't estimator =
  import_Traversome :: "world \<Rightarrow> (pyexc + unit) \<times> world"
  Traversome :: "config \<Rightarrow> world \<Rightarrow> (pyexc + 't) \<times> world"
  run :: "'t \<Rightarrow> VarGen \<Rightarrow> bool \<Rightarrow> world \<Rightarrow> (pyexc + unit) \<times> world"

text \<open>
  Lines 283 to 292: the check of the two input files. \<open>Some (e, w)\<close> is the exception
  that leaves the command and the world it leaves; \<open>None\<close> lets the command go on. A
  \<^verbatim>\<open>Path\<close> is true, \<^verbatim>\<open>None\<close> is false; \<^verbatim>\<open>sys.exit()\<close> raises
  \<^verbatim>\<open>SystemExit\<close> outside every \<^verbatim>\<open>try\<close>, which ends the process.
\<close>

definition check_inputs :: "args \<Rightarrow> world \<Rightarrow> (pyexc \<times> world) option" where
  "check_inputs a w =
     (case (reads_file a, alignment_file a) of
        (Some r, Some al) \<Rightarrow>
          Some (SystemExit, w\<lparr>stderr := stderr w @ [''Flags `-f` and `-a` are mutually exclusive!'']\<rparr>)
      | (None, None) \<Rightarrow>
          Some (SystemExit, w\<lparr>stderr := stderr w @
            [''Either the sequence file (via `-f`) or the graph alignment (via `-a`) should be provided!'']\<rparr>)
      | (Some r, None) \<Rightarrow>
          if \<not> path_exists (filesys w) r then Some (FileNotFoundError r, w) else None
      | (None, Some al) \<Rightarrow>
          if \<not> path_exists (filesys w) al then Some (FileNotFoundError al, w) else None)"

text \<open>Lines 305 and 306: the two environment variables of the numeric backend.\<close>

definition set_compiledir :: "path \<Rightarrow> world \<Rightarrow> world" where
  "set_compiledir out w =
     (let flags = ''base_compiledir='' @ str_of_path (joinpath out ''theano.cache'')
      in w\<lparr>environ := (environ w)(''THEANO_FLAGS'' \<mapsto> flags, ''AESARA_FLAGS'' \<mapsto> flags)\<rparr>)"

text \<open>
  Lines 321 to 346: the estimator is constructed, then run.
  \<^verbatim>\<open>
  traverser = Traversome(graph=str(graph_file), ...)
  traverser.run(path_gen_scheme=var_gen_scheme, uni_chromosome=composition == ChComposition.single)
  \<close>
\<close>

definition construct_and_run ::
  "'t estimator \<Rightarrow> config \<Rightarrow> VarGen \<Rightarrow> bool \<Rightarrow> world \<Rightarrow> (pyexc + unit) \<times> world" where
  "construct_and_run est cfg path_gen_scheme uni_chromosome w =
     (case Traversome est cfg w of
        (Inl e, w1) \<Rightarrow> (Inl e, w1)
      | (Inr traverser, w1) \<Rightarrow> run est traverser path_gen_scheme uni_chromosome w1)"

text \<open>
  Lines 310 to 347: the import of the estimator, the conversion of the selection, then the
  construction and the run.
\<close>

definition select_and_run ::
  "interpreter \<Rightarrow> 't estimator \<Rightarrow> args \<Rightarrow> world \<Rightarrow> unit result \<times> world" where
  "select_and_run py est a w =
     (case import_Traversome est w of
        (Inl e, w1) \<Rightarrow> (Raise e, w1)
      | (Inr u, w1) \<Rightarrow>
          (case parse_graph_selection py (graph_component_selection a) w1 of
             (Raise e, w2) \<Rightarrow> (Raise e, w2)
           | (Unmodelled, w2) \<Rightarrow> (Unmodelled, w2)
           | (Return sel, w2) \<Rightarrow>
               (case construct_and_run est (make_config a sel) (var_gen_scheme a)
                       (composition a = single) w2 of
                  (Inl e, w3) \<Rightarrow> (Raise e, w3)
                | (Inr u, w3) \<Rightarrow> (Return (), w3))))"

text \<open>
  The body of the \<^verbatim>\<open>try\<close> block, lines 301 to 347, with its two assertions:
  \<^verbatim>\<open>
  assert var_gen_scheme != "U", "User-provided is under developing, please use heuristic instead!"
  assert max_valid_search >= min_valid_search, ""
  \<close>
\<close>

definition thorough_try ::
  "interpreter \<Rightarrow> 't estimator \<Rightarrow> args \<Rightarrow> world \<Rightarrow> unit result \<times> world" where
  "thorough_try py est a w =
     (let w1 = set_compiledir (output_dir a) w in
      if \<not> var_gen_scheme a \<noteq> Provided then
        (Raise (AssertionError ''User-provided is under developing, please use heuristic instead!''), w1)
      else if \<not> max_valid_search a \<ge> min_valid_search a then (Raise (AssertionError []), w1)
      else select_and_run py est a w1)"

text \<open>
  The command. Its result is \<open>Return ()\<close> when it returns to its caller, \<open>Raise e\<close>
  when \<open>e\<close> leaves it, and \<open>Unmodelled\<close> where the conversion of the selection is.
  \<^verbatim>\<open>
  (the check of the input files)
  initialize(output_dir=output_dir, loglevel=log_level, previous=prev_run)
  try:
      (the body)
  except SystemExit:
      pass
  except:
      logger.exception("")
  logger.info("Total cost %.4f" % (time.time() - time_zero))
  \<close>
\<close>

definition thorough ::
  "interpreter \<Rightarrow> 't estimator \<Rightarrow> args \<Rightarrow> world \<Rightarrow> unit result \<times> world" where
  "thorough py est a w =
     (case check_inputs a w of
        Some (e, w') \<Rightarrow> (Raise e, w')
      | None \<Rightarrow>
          (case initialize (output_dir a) (log_level a) (prev_run a) w of
             (Inl e, w1) \<Rightarrow> (Raise e, w1)
           | (Inr u, w1) \<Rightarrow>
               (case thorough_try py est a w1 of
                  (Unmodelled, w2) \<Rightarrow> (Unmodelled, w2)
                | (Raise SystemExit, w2) \<Rightarrow> (Return (), logger_info TotalCost w2)
                | (Raise e, w2) \<Rightarrow> (Return (), logger_info TotalCost (logger_exception e w2))
                | (Return u, w2) \<Rightarrow> (Return (), logger_info TotalCost w2))))"

section \<open>The estimator, as the specification describes it\<close>

text \<open>
  The class \<^verbatim>\<open>Traversome\<close> is not in the sources. The two definitions of this section
  follow the words of the specification, sections 4.1 and 4.2 and the failures of
  section 7.
\<close>

datatype failure = InvalidSelectionSpec | InsufficientPathsError nat nat

subsection \<open>ComponentSelector: selection by the ratio of the cumulative weight\<close>

record component =
  comp_id :: nat
  weight :: rat

text \<open>
  Modelled from the spec: the order of the components of the ComponentSelector, whose code
  is missing. "Sort descending by weight, ties broken by a stable component identifier
  (ascending)."
\<close>

definition sort_components :: "component list \<Rightarrow> component list" where
  "sort_components cs = sort_key (\<lambda>c. (- weight c, comp_id c)) cs"

definition total_weight :: "component list \<Rightarrow> rat" where
  "total_weight cs = sum_list (map weight cs)"

text \<open>The fraction of the total weight that a list of components holds.\<close>

definition weight_fraction :: "rat \<Rightarrow> component list \<Rightarrow> rat" where
  "weight_fraction tw cs = total_weight cs / tw"

text \<open>
  Modelled from the spec: the ratio selection of the ComponentSelector, whose code is
  missing. "Ratio selection accumulates weight from the top until the running fraction of
  total weight meets or exceeds the cutoff, inclusive of the component that crosses the
  threshold." \<open>acc\<close> is the weight accumulated so far.
\<close>

fun accumulate :: "rat \<Rightarrow> rat \<Rightarrow> rat \<Rightarrow> component list \<Rightarrow> component list" where
  "accumulate tw r acc [] = []"
| "accumulate tw r acc (c # cs) =
     (if r \<le> (acc + weight c) / tw then [c] else c # accumulate tw r (acc + weight c) cs)"

text \<open>
  Modelled from the spec: the ratio selection with its check, whose code is missing.
  "Fails with InvalidSelectionSpec if ... the ratio is outside (0,1]."
\<close>

definition ratio_select :: "rat \<Rightarrow> component list \<Rightarrow> failure + component list" where
  "ratio_select r cs =
     (if 0 < r \<and> r \<le> 1
      then Inr (accumulate (total_weight cs) r 0 (sort_components cs))
      else Inl InvalidSelectionSpec)"

subsection \<open>PathEnumerator: the bounds of the search\<close>

text \<open>
  Modelled from the spec: the loop of the PathEnumerator, whose code is missing. The
  randomized walks are a parameter: \<open>walk n\<close> is what attempt \<open>n\<close> of the seeded
  generator yields, \<open>Some p\<close> a valid path in canonical form and \<open>None\<close> a walk that is
  not valid. "Each completed walk is validated ... and, if valid and not a duplicate
  (after canonicalization), added to the result set. Enumeration halts when either
  min_valid_search distinct valid paths are collected or max_valid_search total attempts
  are exhausted. Fails with InsufficientPathsError if the minimum is not reached within
  the attempt budget ... with diagnostic counts." The state of the loop is the number
  \<open>n\<close> of attempts made and the paths found; the result comes with the number of attempts
  made. \<open>min_valid\<close> and \<open>max_valid\<close> are the two bounds.
\<close>

function enumerate_from ::
  "(nat \<Rightarrow> 'p option) \<Rightarrow> nat \<Rightarrow> nat \<Rightarrow> nat \<Rightarrow> 'p list \<Rightarrow> (failure + 'p list) \<times> nat" where
  "enumerate_from walk min_valid max_valid n found =
     (if min_valid \<le> length found then (Inr found, n)
      else if max_valid \<le> n then (Inl (InsufficientPathsError (length found) n), n)
      else (case walk n of
              None \<Rightarrow> enumerate_from walk min_valid max_valid (Suc n) found
            | Some p \<Rightarrow>
                if p \<in> set found
                then enumerate_from walk min_valid max_valid (Suc n) found
                else enumerate_from walk min_valid max_valid (Suc n) (found @ [p])))"
  by pat_completeness auto
termination
  by (relation "measure (\<lambda>(walk, mn, mx, n, found). mx - n)") auto

declare enumerate_from.simps [simp del]

definition enumerate_paths :: "(nat \<Rightarrow> 'p option) \<Rightarrow> nat \<Rightarrow> nat \<Rightarrow> (failure + 'p list) \<times> nat" where
  "enumerate_paths walk min_valid max_valid =
     enumerate_from walk min_valid max_valid 0 []"

text \<open>
  Modelled from the spec: the enumeration over the selected components, whose code is
  missing. "Enumeration and sampling errors are component-scoped and do not abort sibling
  components' analysis": each component has its own walks and its own result.
\<close>

definition enumerate_components ::
  "('c \<Rightarrow> nat \<Rightarrow> 'p option) \<Rightarrow> nat \<Rightarrow> nat \<Rightarrow> 'c list \<Rightarrow> ((failure + 'p list) \<times> nat) list" where
  "enumerate_components walks min_valid max_valid cs =
     map (\<lambda>c. enumerate_paths (walks c) min_valid max_valid) cs"

text \<open>
  The distinct valid paths among the first \<open>n\<close> attempts, in the order they were found:
  what the enumerator has collected after \<open>n\<close> attempts.
\<close>

fun collected :: "(nat \<Rightarrow> 'p option) \<Rightarrow> nat \<Rightarrow> 'p list" where
  "collected walk 0 = []"
| "collected walk (Suc n) =
     (case walk n of
        None \<Rightarrow> collected walk n
      | Some p \<Rightarrow> if p \<in> set (collected walk n) then collected walk n else collected walk n @ [p])"

section \<open>What the overwrite policy clears\<close>


section \<open>Concrete inputs\<close>

text \<open>
  A small world for the examples: the input files under \<^verbatim>\<open>/data\<close> and an output
  directory \<^verbatim>\<open>/out\<close> that an earlier run has filled.
\<close>

definition example_files :: filesystem where
  "example_files =
     [([''data''], Dir), ([''data'', ''graph.gfa''], File), ([''data'', ''align.gaf''], File),
      ([''data'', ''reads.fq''], File), ([''out''], Dir), ([''out'', ''paths''], Dir),
      ([''out'', ''paths'', ''p1''], File), ([''out'', ''final.csv''], File),
      ([''out'', ''notes''], File), ([''out'', ''results''], Dir),
      ([''out'', ''results'', ''old.csv''], File), ([''out'', ''traversome.log.txt''], File)]"

definition example_world :: world where
  "example_world =
     \<lparr>filesys = example_files, stderr = [], environ = Map.empty, handlers = [], delivered = []\<rparr>"

text \<open>
  \<^verbatim>\<open>traversome thorough -g /data/graph.gfa -a /data/align.gaf -o /out --previous resume\<close>
  with a topology and a composition, every other option at its default.
\<close>

definition example_args :: args where
  "example_args =
     \<lparr>graph_file = [''data'', ''graph.gfa''], reads_file = None,
      alignment_file = Some [''data'', ''align.gaf''], output_dir = [''out''],
      var_gen_scheme = Heuristic, min_valid_search = 1000, max_valid_search = 100000,
      criterion = AIC, random_seed = 12345, topology = circular,
      composition = unconstrained_composition, out_seq_threshold = 0,
      min_alignment_identity_cutoff = 85 / 100, min_alignment_len_cutoff = 5000,
      graph_component_selection = ''0'', num_processes = 1, n_generations = 10000,
      n_burn = 1000, prev_run = resume, keep_temp = False, log_level = INFO\<rparr>"

text \<open>The three components of section 8 of the specification, with weights 10, 5 and 1.\<close>

definition example_components :: "component list" where
  "example_components =
     [\<lparr>comp_id = 0, weight = 10\<rparr>, \<lparr>comp_id = 1, weight = 5\<rparr>, \<lparr>comp_id = 2, weight = 1\<rparr>]"

text \<open>
  Walks for the enumerator: every second attempt is valid, and the valid paths repeat
  after the third.
\<close>

definition example_walk :: "nat \<Rightarrow> nat option" where
  "example_walk n = (if even n then Some (n mod 6) else None)"

text \<open>An estimator that runs to its end, and one whose run raises a given exception.\<close>

definition returning :: "unit estimator" where
  "returning =
     \<lparr>import_Traversome = (\<lambda>w. (Inr (), w)), Traversome = (\<lambda>c w. (Inr (), w)),
      run = (\<lambda>t g u w. (Inr (), w))\<rparr>"

definition raising :: "pyexc \<Rightarrow> unit estimator" where
  "raising e =
     \<lparr>import_Traversome = (\<lambda>w. (Inr (), w)), Traversome = (\<lambda>c w. (Inr (), w)),
      run = (\<lambda>t g u w. (Inl e, w))\<rparr>"

text \<open>
  An interpreter for the examples. It says what \<^verbatim>\<open>eval\<close> does on three kinds of
  strings, and nothing on any other:
  \<^item> the empty string is a \<^verbatim>\<open>SyntaxError\<close>;
  \<^item> a single ASCII letter is a name that neither the builtins, nor the module, nor the
    locals of \<^verbatim>\<open>thorough\<close> bind: a \<^verbatim>\<open>NameError\<close>;
  \<^item> atoms separated by commas, with no white space, an atom being \<^verbatim>\<open>None\<close> or a
    decimal integer literal of at most 640 digits (no leading zero, unless every digit is
    a zero) with an optional minus sign: one atom with no comma is its value, otherwise
    the value is the tuple of the atoms (a comma may trail).
\<close>

fun split_on :: "char \<Rightarrow> string \<Rightarrow> string list" where
  "split_on c [] = [[]]"
| "split_on c (x # xs) =
     (if x = c then [] # split_on c xs
      else (case split_on c xs of [] \<Rightarrow> [[x]] | y # ys \<Rightarrow> (x # y) # ys))"

definition is_decinteger :: "string \<Rightarrow> bool" where
  "is_decinteger ds =
     (ds \<noteq> [] \<and> length ds \<le> 640 \<and> list_all is_ascii_digit ds \<and>
      (take 1 ds \<noteq> ''0'' \<or> list_all (\<lambda>c. c = CHR ''0'') ds))"

definition parse_atom :: "string \<Rightarrow> pyval option" where
  "parse_atom t =
     (if t = ''None'' then Some PyNone
      else if is_decinteger t then Some (PyInt (int (decimal t)))
      else (case t of
              [] \<Rightarrow> None
            | c # ds \<Rightarrow> if c = CHR ''-'' \<and> is_decinteger ds then Some (PyInt (- int (decimal ds))) else None))"

definition is_ascii_letter :: "char \<Rightarrow> bool" where
  "is_ascii_letter c =
     ((65 \<le> (of_char c :: nat) \<and> (of_char c :: nat) \<le> 90) \<or>
      (97 \<le> (of_char c :: nat) \<and> (of_char c :: nat) \<le> 122))"

definition example_eval :: "string \<Rightarrow> pyval result" where
  "example_eval s =
     (if s = [] then Raise SyntaxError
      else if length s = 1 \<and> list_all is_ascii_letter s then Raise (NameError s)
      else
        (let items = split_on (CHR '','') s;
             items' = (if 2 \<le> length items \<and> last items = [] then butlast items else items)
         in case those (map parse_atom items') of
              None \<Rightarrow> Unmodelled
            | Some vs \<Rightarrow>
                if CHR '','' \<in> set s then Return (PyTuple vs)
                else (case vs of [v] \<Rightarrow> Return v | _ \<Rightarrow> Unmodelled)))"

definition example_python :: interpreter where
  "example_python =
     \<lparr>py_eval = (\<lambda>s w. (example_eval s, w)), py_iter = (\<lambda>r w. (Unmodelled, w))\<rparr>"

section \<open>Lemmas on the command\<close>

text \<open>
  The handler of the \<^verbatim>\<open>try\<close> block: whatever the body raises, the command returns, after
  the record of the exception (none for \<open>SystemExit\<close>) and the record of the total cost.
\<close>

lemma thorough_handler:
  assumes "check_inputs a w = None"
    and "fst (initialize (output_dir a) (log_level a) (prev_run a) w) = Inr ()"
    and "fst (thorough_try py est a (snd (initialize (output_dir a) (log_level a) (prev_run a) w))) = Raise e"
  shows "thorough py est a w =
    (Return (), logger_info TotalCost
       (if e = SystemExit
        then snd (thorough_try py est a (snd (initialize (output_dir a) (log_level a) (prev_run a) w)))
        else logger_exception e
               (snd (thorough_try py est a (snd (initialize (output_dir a) (log_level a) (prev_run a) w))))))"
proof -
  obtain w1 where i: "initialize (output_dir a) (log_level a) (prev_run a) w = (Inr (), w1)"
    using assms(2) by (cases "initialize (output_dir a) (log_level a) (prev_run a) w") auto
  obtain w2 where t: "thorough_try py est a w1 = (Raise e, w2)"
    using assms(3) i by (cases "thorough_try py est a w1") auto
  show ?thesis
    using assms(1) i t by (cases e) (simp_all add: thorough_def)
qed

text \<open>\<^verbatim>\<open>os.makedirs\<close> on a path that is there, below a parent that is there.\<close>

lemma makedirs_existing_dir:
  assumes "isdir fs p" and "path_exists fs (butlast p)"
  shows "makedirs p True fs = (Inr (), fs)"
  using assms
  by (subst makedirs.simps) (simp add: mkdir_exist_ok_def mkdir_def path_exists_def isdir_def)


lemma example_initialize_resume:
  "fst (initialize [''out''] INFO resume example_world) = Inr ()"
  by (simp add: initialize_def log_headers_def makedirs_existing_dir isdir_def path_exists_def
      fs_lookup_def example_world_def example_files_def setup_simple_logger_def open_sink_def
      joinpath_def logger_info_def logger_log_def Let_def)

lemma example_check_inputs: "check_inputs example_args example_world = None"
  by (simp add: check_inputs_def example_args_def example_world_def example_files_def
      path_exists_def fs_lookup_def)

text \<open>What the two calls of the logger deliver, and the example on its way to the estimator.\<close>

lemma level_no_le_error: "level_no hl \<le> 40"
  by (cases hl) simp_all

lemma logger_exception_delivered:
  "delivered (logger_exception e w) =
     delivered w @ map (\<lambda>(s, hl). (s, ERROR, ExceptionRecord e)) (handlers w)"
proof -
  have "filter (\<lambda>(s, hl). level_no hl \<le> level_no ERROR) (handlers w) = handlers w"
    by (rule filter_True) (auto simp: level_no_le_error)
  then show ?thesis by (simp add: logger_exception_def logger_log_def)
qed

lemma logger_exception_handlers: "handlers (logger_exception e w) = handlers w"
  by (simp add: logger_exception_def logger_log_def)

lemma logger_info_delivered:
  "delivered (logger_info m w) =
     delivered w @ map (\<lambda>(s, hl). (s, INFO, m))
       (filter (\<lambda>(s, hl). level_no hl \<le> level_no INFO) (handlers w))"
  by (simp add: logger_info_def logger_log_def)

lemma example_args_fields:
  "output_dir example_args = [''out'']" "log_level example_args = INFO"
  "prev_run example_args = resume" "var_gen_scheme example_args = Heuristic"
  "min_valid_search example_args = 1000" "max_valid_search example_args = 100000"
  "graph_component_selection example_args = ''0''"
  "composition example_args = unconstrained_composition"
  by (simp_all add: example_args_def)

lemma example_selection: "parse_graph_selection py ''0'' w = (Return (SelInt 0), w)"
  by (simp add: parse_graph_selection_def isdigit_def char_isdigit_def is_ascii_digit_def
      int_of_digits_def decimal_def digit_val_def)


section \<open>Lemmas on the conversion of the selection\<close>










section \<open>Lemmas on \<open>initialize\<close>\<close>



























section \<open>Lemmas on the selection by ratio\<close>

text \<open>
  The accumulation stops at the first prefix whose fraction reaches the cutoff, when the
  whole list reaches it and the weight accumulated before does not.
\<close>

lemma accumulate_prefix:
  assumes "r \<le> (acc + sum_list (map weight xs)) / tw" and "acc / tw < r"
  shows "\<exists>k. 0 < k \<and> k \<le> length xs \<and> accumulate tw r acc xs = take k xs \<and>
             r \<le> (acc + sum_list (map weight (take k xs))) / tw \<and>
             (\<forall>j<k. (acc + sum_list (map weight (take j xs))) / tw < r)"
  using assms
proof (induction xs arbitrary: acc)
  case Nil
  then show ?case by simp
next
  case (Cons c cs)
  show ?case
  proof (cases "r \<le> (acc + weight c) / tw")
    case True
    with Cons.prems(2) have "0 < (1::nat) \<and> 1 \<le> length (c # cs) \<and>
        accumulate tw r acc (c # cs) = take 1 (c # cs) \<and>
        r \<le> (acc + sum_list (map weight (take 1 (c # cs)))) / tw \<and>
        (\<forall>j<1. (acc + sum_list (map weight (take j (c # cs)))) / tw < r)"
      by simp
    then show ?thesis by blast
  next
    case False
    then have lt: "(acc + weight c) / tw < r" by simp
    from Cons.prems(1) have "r \<le> (acc + weight c + sum_list (map weight cs)) / tw"
      by (simp add: add.assoc)
    from Cons.IH[OF this lt] obtain k where k: "0 < k" "k \<le> length cs"
      "accumulate tw r (acc + weight c) cs = take k cs"
      "r \<le> (acc + weight c + sum_list (map weight (take k cs))) / tw"
      "\<forall>j<k. (acc + weight c + sum_list (map weight (take j cs))) / tw < r"
      by blast
    have "\<forall>j<Suc k. (acc + sum_list (map weight (take j (c # cs)))) / tw < r"
    proof (intro allI impI)
      fix j assume "j < Suc k"
      show "(acc + sum_list (map weight (take j (c # cs)))) / tw < r"
      proof (cases j)
        case 0
        with Cons.prems(2) show ?thesis by simp
      next
        case (Suc j')
        with \<open>j < Suc k\<close> k(5) show ?thesis by (simp add: add.assoc)
      qed
    qed
    with k False have "0 < Suc k \<and> Suc k \<le> length (c # cs) \<and>
        accumulate tw r acc (c # cs) = take (Suc k) (c # cs) \<and>
        r \<le> (acc + sum_list (map weight (take (Suc k) (c # cs)))) / tw \<and>
        (\<forall>j<Suc k. (acc + sum_list (map weight (take j (c # cs)))) / tw < r)"
      by (simp add: add.assoc)
    then show ?thesis by blast
  qed
qed

lemma total_weight_sort: "total_weight (sort_components cs) = total_weight cs"
proof -
  have "mset (sort_components cs) = mset cs" by (simp add: sort_components_def)
  then have "sum_mset (image_mset weight (mset (sort_components cs))) =
             sum_mset (image_mset weight (mset cs))" by simp
  then show ?thesis
    unfolding total_weight_def by (metis mset_map sum_mset_sum_list)
qed

lemma sort_components_descending:
  "sorted_wrt (\<lambda>c d. weight d < weight c \<or> (weight d = weight c \<and> comp_id c \<le> comp_id d))
     (sort_components cs)"
proof -
  have "sorted (map (\<lambda>c. (- weight c, comp_id c)) (sort_components cs))"
    unfolding sort_components_def by (rule sorted_sort_key)
  then have "sorted_wrt (\<lambda>c d. (- weight c, comp_id c) \<le> (- weight d, comp_id d)) (sort_components cs)"
    by (simp add: sorted_map)
  then show ?thesis
    by (rule sorted_wrt_mono_rel[rotated]) (auto simp: less_eq_prod_def)
qed

lemma example_components_sorted: "sort_components example_components = example_components"
  by (simp add: sort_components_def example_components_def less_eq_prod_def)

section \<open>Lemmas on the enumeration of paths\<close>

text \<open>
  What the enumerator has collected only grows, one path at a time, and holds valid paths
  without repetition. The loop, started after \<open>n\<close> attempts with what these have
  collected, stops at the first number of attempts at which the minimum is reached or
  the budget is spent.
\<close>

lemma collected_distinct: "distinct (collected walk n)"
  by (induction n) (auto split: option.splits)

lemma collected_length_mono_Suc: "length (collected walk n) \<le> length (collected walk (Suc n))"
  by (auto split: option.splits)

lemma collected_length_mono: "m \<le> n \<Longrightarrow> length (collected walk m) \<le> length (collected walk n)"
  by (induction n) (auto simp: le_Suc_eq split: option.splits)

lemma collected_valid: "p \<in> set (collected walk n) \<Longrightarrow> \<exists>i<n. walk i = Some p"
  by (induction n) (auto simp: less_Suc_eq split: option.splits if_splits)

lemma enumerate_from_halts:
  assumes "enumerate_from walk mn mx n (collected walk n) = (res, n')"
  shows "n \<le> n' \<and>
         (\<forall>m. n \<le> m \<and> m < n' \<longrightarrow> length (collected walk m) < mn \<and> m < mx) \<and>
         (if mn \<le> length (collected walk n') then res = Inr (collected walk n')
          else mx \<le> n' \<and> res = Inl (InsufficientPathsError (length (collected walk n')) n'))"
  using assms
proof (induction walk mn mx n "collected walk n" arbitrary: res n' rule: enumerate_from.induct)
  case (1 walk mn mx n)
  show ?case
  proof (cases "mn \<le> length (collected walk n)")
    case True
    with "1.prems" show ?thesis by (subst (asm) enumerate_from.simps) auto
  next
    case notyet: False
    show ?thesis
    proof (cases "mx \<le> n")
      case True
      with "1.prems" notyet show ?thesis by (subst (asm) enumerate_from.simps) auto
    next
      case False
      have step: "enumerate_from walk mn mx (Suc n) (collected walk (Suc n)) = (res, n')"
        using "1.prems" notyet False
        by (subst (asm) enumerate_from.simps) (auto split: option.splits if_splits)
      have ih: "Suc n \<le> n' \<and>
         (\<forall>m. Suc n \<le> m \<and> m < n' \<longrightarrow> length (collected walk m) < mn \<and> m < mx) \<and>
         (if mn \<le> length (collected walk n') then res = Inr (collected walk n')
          else mx \<le> n' \<and> res = Inl (InsufficientPathsError (length (collected walk n')) n'))"
      proof (cases "walk n")
        case None
        with "1.hyps"(1)[OF notyet False None _ step] show ?thesis by simp
      next
        case (Some p)
        show ?thesis
        proof (cases "p \<in> set (collected walk n)")
          case True
          with "1.hyps"(2)[OF notyet False Some True _ step] Some show ?thesis by simp
        next
          case notin: False
          with "1.hyps"(3)[OF notyet False Some notin _ step] Some show ?thesis by simp
        qed
      qed
      have "\<forall>m. n \<le> m \<and> m < n' \<longrightarrow> length (collected walk m) < mn \<and> m < mx"
      proof (intro allI impI)
        fix m assume m: "n \<le> m \<and> m < n'"
        show "length (collected walk m) < mn \<and> m < mx"
        proof (cases "m = n")
          case True
          with notyet False show ?thesis by simp
        next
          case False
          with m have "Suc n \<le> m \<and> m < n'" by simp
          with ih show ?thesis by blast
        qed
      qed
      with ih show ?thesis by simp
    qed
  qed
qed

lemma collected_length_Suc: "length (collected walk (Suc n)) \<le> Suc (length (collected walk n))"
  by (auto split: option.splits)

text \<open>The two runs of the example walks.\<close>

lemma example_enumerations:
  "enumerate_paths example_walk 3 100 = (Inr [0, 2, 4], 5)"
  "enumerate_paths example_walk 4 10 = (Inl (InsufficientPathsError 3 10), 10)"
  by code_simp+

section \<open>The claims\<close>

subsection \<open>C2: the read file and the alignment file\<close>

text \<open>
  C2: exactly one of the read file (\<^verbatim>\<open>-f\<close>) and the alignment file (\<^verbatim>\<open>-a\<close>) must be
  given. With both, or with neither, the command writes its message and exits; with one
  that does not exist it raises \<open>FileNotFoundError\<close> with that path. In each of these
  cases the world is otherwise as it was and the estimator has no part in the result: no
  analysis has begun. The check lets the command go on exactly when one of the two is
  given and exists.
\<close>

theorem thorough_input_files:
  "(reads_file a \<noteq> None \<and> alignment_file a \<noteq> None \<longrightarrow>
      thorough py est a w =
        (Raise SystemExit, w\<lparr>stderr := stderr w @ [''Flags `-f` and `-a` are mutually exclusive!'']\<rparr>)) \<and>
   (reads_file a = None \<and> alignment_file a = None \<longrightarrow>
      thorough py est a w =
        (Raise SystemExit, w\<lparr>stderr := stderr w @
          [''Either the sequence file (via `-f`) or the graph alignment (via `-a`) should be provided!'']\<rparr>)) \<and>
   (reads_file a = Some f \<and> alignment_file a = None \<and> \<not> path_exists (filesys w) f \<longrightarrow>
      thorough py est a w = (Raise (FileNotFoundError f), w)) \<and>
   (reads_file a = None \<and> alignment_file a = Some f \<and> \<not> path_exists (filesys w) f \<longrightarrow>
      thorough py est a w = (Raise (FileNotFoundError f), w)) \<and>
   (check_inputs a w = None \<longleftrightarrow>
      (\<exists>g. path_exists (filesys w) g \<and>
        ((reads_file a = Some g \<and> alignment_file a = None) \<or>
         (reads_file a = None \<and> alignment_file a = Some g))))"
  by (auto simp: thorough_def check_inputs_def split: option.splits)

text \<open>The four failures and the success, on the example.\<close>

theorem thorough_input_files_witness:
  "thorough example_python returning (example_args\<lparr>reads_file := Some [''data'', ''reads.fq'']\<rparr>) example_world =
     (Raise SystemExit,
      example_world\<lparr>stderr := stderr example_world @ [''Flags `-f` and `-a` are mutually exclusive!'']\<rparr>) \<and>
   thorough example_python returning (example_args\<lparr>alignment_file := None\<rparr>) example_world =
     (Raise SystemExit,
      example_world\<lparr>stderr := stderr example_world @
        [''Either the sequence file (via `-f`) or the graph alignment (via `-a`) should be provided!'']\<rparr>) \<and>
   thorough example_python returning (example_args\<lparr>reads_file := Some [''data'', ''lost.fq''], alignment_file := None\<rparr>)
       example_world = (Raise (FileNotFoundError [''data'', ''lost.fq'']), example_world) \<and>
   thorough example_python returning (example_args\<lparr>alignment_file := Some [''data'', ''lost.gaf'']\<rparr>)
       example_world = (Raise (FileNotFoundError [''data'', ''lost.gaf'']), example_world) \<and>
   check_inputs example_args example_world = None"
proof -
  have lost: "\<not> path_exists (filesys example_world) [''data'', ''lost.fq'']"
    "\<not> path_exists (filesys example_world) [''data'', ''lost.gaf'']"
    "path_exists (filesys example_world) [''data'', ''align.gaf'']"
    by (simp_all add: example_world_def example_files_def path_exists_def fs_lookup_def)
  show ?thesis
    using lost
      thorough_input_files[where a="example_args\<lparr>reads_file := Some [''data'', ''reads.fq'']\<rparr>"
        and est=returning and py=example_python and w=example_world]
      thorough_input_files[where a="example_args\<lparr>alignment_file := None\<rparr>"
        and est=returning and py=example_python and w=example_world]
      thorough_input_files[where
        a="example_args\<lparr>reads_file := Some [''data'', ''lost.fq''], alignment_file := None\<rparr>"
        and f="[''data'', ''lost.fq'']" and w=example_world and est=returning and py=example_python]
      thorough_input_files[where a="example_args\<lparr>alignment_file := Some [''data'', ''lost.gaf'']\<rparr>"
        and f="[''data'', ''lost.gaf'']" and w=example_world and est=returning and py=example_python]
      thorough_input_files[where a=example_args and w=example_world and est=returning and py=example_python]
    by (simp add: example_args_def)
qed

subsection \<open>C3: a selection that is malformed or out of range\<close>




subsection \<open>C4: the policy on a previous run\<close>




subsection \<open>C5: the bounds of the enumeration of paths\<close>

text \<open>
  C5, on the enumerator as the specification describes it. Let the enumeration stop
  after \<open>n\<close> attempts with the result \<open>res\<close>. Then \<open>n\<close> is within the budget; at no
  earlier number of attempts was the minimum reached or the budget spent; and at \<open>n\<close>
  the minimum is reached or the budget is spent. When the whole budget does not reach the
  minimum, the enumeration spends it and fails with \<open>InsufficientPathsError\<close> and its two
  counts; when it does, the result is what was collected. Paths that are returned are
  exactly \<open>min_valid\<close> many, distinct, and each the outcome of an attempt made: fewer
  are never returned. Each component of a list has the result of its own enumeration, so
  a failure for one leaves the others as they are.
\<close>

theorem enumerate_paths_bounds:
  assumes "enumerate_paths walk mn mx = (res, n)"
  shows "n \<le> mx \<and>
         (\<forall>m<n. length (collected walk m) < mn \<and> m < mx) \<and>
         (mn \<le> length (collected walk n) \<or> n = mx) \<and>
         (length (collected walk mx) < mn \<longrightarrow>
            n = mx \<and> res = Inl (InsufficientPathsError (length (collected walk mx)) mx)) \<and>
         (mn \<le> length (collected walk mx) \<longrightarrow> res = Inr (collected walk n)) \<and>
         (\<forall>ps. res = Inr ps \<longrightarrow>
            length ps = mn \<and> distinct ps \<and> (\<forall>p\<in>set ps. \<exists>i<n. walk i = Some p)) \<and>
         (\<forall>i<length cs. enumerate_components walks mn mx cs ! i = enumerate_paths (walks (cs ! i)) mn mx)"
proof -
  from assms have "enumerate_from walk mn mx 0 (collected walk 0) = (res, n)"
    by (simp add: enumerate_paths_def)
  from enumerate_from_halts[OF this]
  have before: "\<forall>m<n. length (collected walk m) < mn \<and> m < mx"
    and at: "if mn \<le> length (collected walk n) then res = Inr (collected walk n)
          else mx \<le> n \<and> res = Inl (InsufficientPathsError (length (collected walk n)) n)"
    by auto
  have le: "n \<le> mx"
  proof (cases n)
    case 0
    then show ?thesis by simp
  next
    case (Suc m)
    with before have "m < mx" by simp
    with Suc show ?thesis by simp
  qed
  have halt: "mn \<le> length (collected walk n) \<or> n = mx"
    using at le by (auto split: if_splits)
  have fail: "n = mx \<and> res = Inl (InsufficientPathsError (length (collected walk mx)) mx)"
    if "length (collected walk mx) < mn"
  proof -
    from collected_length_mono[OF le, of walk] that have "\<not> mn \<le> length (collected walk n)" by simp
    with at le show ?thesis by auto
  qed
  have succeed: "res = Inr (collected walk n)" if "mn \<le> length (collected walk mx)"
    using at le that by (auto split: if_splits)
  have returned: "length ps = mn \<and> distinct ps \<and> (\<forall>p\<in>set ps. \<exists>i<n. walk i = Some p)"
    if "res = Inr ps" for ps
  proof -
    from at that have ps: "ps = collected walk n" and ge: "mn \<le> length (collected walk n)"
      by (auto split: if_splits)
    have "length (collected walk n) \<le> mn"
    proof (cases n)
      case 0
      then show ?thesis by simp
    next
      case (Suc m)
      with before have "length (collected walk m) < mn" by simp
      with collected_length_Suc[of walk m] Suc show ?thesis by simp
    qed
    with ge ps show ?thesis
      by (auto simp: collected_distinct dest: collected_valid)
  qed
  have comps: "\<forall>i<length cs. enumerate_components walks mn mx cs ! i = enumerate_paths (walks (cs ! i)) mn mx"
    by (simp add: enumerate_components_def)
  show ?thesis
    using le before halt fail succeed returned comps by blast
qed

text \<open>
  The example walks: three paths after five attempts; with a minimum of four and ten
  attempts, a failure that counts three paths.
\<close>

theorem enumerate_paths_bounds_witness:
  "enumerate_paths example_walk 3 100 = (Inr [0, 2, 4], 5) \<and>
   length (collected example_walk 4) < 3 \<and>
   3 \<le> length (collected example_walk 5) \<and>
   enumerate_paths example_walk 4 10 = (Inl (InsufficientPathsError 3 10), 10) \<and>
   length (collected example_walk 9) < 4 \<and>
   enumerate_components (\<lambda>c. example_walk) 3 100 [(), ()] ! 1 = (Inr [0, 2, 4], 5)"
proof -
  note a = enumerate_paths_bounds[OF example_enumerations(1), where cs="[(), ()]"
      and walks="\<lambda>c. example_walk"]
  note b = enumerate_paths_bounds[OF example_enumerations(2), where cs="[]"]
  from a have a1: "length (collected example_walk 4) < 3" by simp
  from a have a2: "3 \<le> length (collected example_walk 5)" by simp
  from a have a3: "enumerate_components (\<lambda>c. example_walk) 3 100 [(), ()] ! 1 =
      enumerate_paths example_walk 3 100" by simp
  from b have b1: "length (collected example_walk 9) < 4" by simp
  show ?thesis
    using a1 a2 a3 b1 example_enumerations by simp
qed

subsection \<open>C6: the selection by the ratio of the cumulative weight\<close>

text \<open>
  C6, on the selector as the specification describes it: for a cutoff \<open>r\<close> in (0,1] and
  components of positive total weight, the selection is a prefix of the components in
  the order of the selector, it is not empty, the fraction of the total weight it holds is
  at least \<open>r\<close>, and no shorter prefix reaches \<open>r\<close>: the component that crosses the
  cutoff is the last one selected. The order is descending by weight, ties by ascending
  identifier, and it permutes the components. For the weights 10, 5 and 1 and the cutoff
  0.7 the selection is the first two components. Weights and cutoff are rationals here.
\<close>

theorem ratio_select_minimal_prefix:
  "(0 < r \<and> r \<le> 1 \<and> 0 < total_weight cs \<longrightarrow>
      (\<exists>k. ratio_select r cs = Inr (take k (sort_components cs)) \<and> 0 < k \<and> k \<le> length cs \<and>
           r \<le> weight_fraction (total_weight cs) (take k (sort_components cs)) \<and>
           (\<forall>j<k. weight_fraction (total_weight cs) (take j (sort_components cs)) < r))) \<and>
   sorted_wrt (\<lambda>c d. weight d < weight c \<or> (weight d = weight c \<and> comp_id c \<le> comp_id d))
     (sort_components cs) \<and>
   mset (sort_components cs) = mset cs \<and>
   ratio_select (7 / 10) example_components = Inr (take 2 example_components)"
proof -
  have main: "\<exists>k. ratio_select r cs = Inr (take k (sort_components cs)) \<and> 0 < k \<and> k \<le> length cs \<and>
           r \<le> weight_fraction (total_weight cs) (take k (sort_components cs)) \<and>
           (\<forall>j<k. weight_fraction (total_weight cs) (take j (sort_components cs)) < r)"
    if h: "0 < r" "r \<le> 1" "0 < total_weight cs"
  proof -
    let ?S = "sort_components cs"
    let ?tw = "total_weight cs"
    have "sum_list (map weight ?S) = ?tw"
      using total_weight_sort[of cs] by (simp add: total_weight_def)
    with h have reach: "r \<le> (0 + sum_list (map weight ?S)) / ?tw" by simp
    from h have start: "0 / ?tw < r" by simp
    from accumulate_prefix[OF reach start] obtain k where k: "0 < k" "k \<le> length ?S"
      "accumulate ?tw r 0 ?S = take k ?S"
      "r \<le> (0 + sum_list (map weight (take k ?S))) / ?tw"
      "\<forall>j<k. (0 + sum_list (map weight (take j ?S))) / ?tw < r"
      by blast
    have len: "length ?S = length cs" by (simp add: sort_components_def)
    from k h len have "ratio_select r cs = Inr (take k ?S) \<and> 0 < k \<and> k \<le> length cs \<and>
           r \<le> weight_fraction ?tw (take k ?S) \<and>
           (\<forall>j<k. weight_fraction ?tw (take j ?S) < r)"
      by (simp add: ratio_select_def weight_fraction_def total_weight_def)
    then show ?thesis by blast
  qed
  have ex: "ratio_select (7 / 10) example_components = Inr (take 2 example_components)"
    by (simp add: ratio_select_def example_components_sorted)
       (simp add: example_components_def total_weight_def)
  show ?thesis
    using main sort_components_descending[of cs] ex
    by (simp add: sort_components_def)
qed

text \<open>The example: 10/16 is below 0.7 and 15/16 is not.\<close>

theorem ratio_select_minimal_prefix_witness:
  "0 < (7 / 10 :: rat) \<and> (7 / 10 :: rat) \<le> 1 \<and> total_weight example_components = 16 \<and>
   ratio_select (7 / 10) example_components =
     Inr [\<lparr>comp_id = 0, weight = 10\<rparr>, \<lparr>comp_id = 1, weight = 5\<rparr>] \<and>
   weight_fraction 16 (take 1 example_components) = 10 / 16 \<and>
   weight_fraction 16 (take 2 example_components) = 15 / 16 \<and>
   (\<exists>k. ratio_select (7 / 10) example_components = Inr (take k (sort_components example_components)) \<and>
        0 < k \<and> k \<le> length example_components \<and>
        7 / 10 \<le> weight_fraction (total_weight example_components)
                   (take k (sort_components example_components)))"
proof -
  have t: "total_weight example_components = 16"
    by (simp add: total_weight_def example_components_def)
  have f: "weight_fraction 16 (take 1 example_components) = 10 / 16"
    "weight_fraction 16 (take 2 example_components) = 15 / 16"
    by (simp_all add: weight_fraction_def total_weight_def example_components_def)
  have e: "take 2 example_components = [\<lparr>comp_id = 0, weight = 10\<rparr>, \<lparr>comp_id = 1, weight = 5\<rparr>]"
    by (simp add: example_components_def)
  have "\<exists>k. ratio_select (7 / 10) example_components = Inr (take k (sort_components example_components)) \<and>
        0 < k \<and> k \<le> length example_components \<and>
        7 / 10 \<le> weight_fraction (total_weight example_components)
                   (take k (sort_components example_components))"
    using ratio_select_minimal_prefix[where r="7 / 10" and cs=example_components] t by auto
  moreover have "ratio_select (7 / 10) example_components =
     Inr [\<lparr>comp_id = 0, weight = 10\<rparr>, \<lparr>comp_id = 1, weight = 5\<rparr>]"
    using ratio_select_minimal_prefix[where r="7 / 10" and cs=example_components] e by simp
  ultimately show ?thesis using t f by simp
qed

subsection \<open>C8: the exceptions of the run phase\<close>

text \<open>
  C8: once the input files are checked and \<open>initialize\<close> has returned, an exception that
  the estimator raises, in its import, in its construction or in its run, does not leave
  the command. A \<open>SystemExit\<close> is dropped without a record; any other exception is
  logged by \<^verbatim>\<open>logger.exception\<close>, whose record reaches every handler. In both cases
  the command goes on to log the total cost (to the handlers whose level lets an INFO
  record through) and returns. \<open>w1\<close> is the world the import starts in, \<open>w2\<close> the world
  the estimator leaves.
\<close>

theorem thorough_catches_estimator_exceptions:
  assumes "check_inputs a w = None"
    and "fst (initialize (output_dir a) (log_level a) (prev_run a) w) = Inr ()"
    and "w1 = set_compiledir (output_dir a) (snd (initialize (output_dir a) (log_level a) (prev_run a) w))"
    and "var_gen_scheme a = Heuristic"
    and "min_valid_search a \<le> max_valid_search a"
    and "import_Traversome est w1 = (Inl e, w2) \<or>
         (\<exists>wi wp sel.
            import_Traversome est w1 = (Inr (), wi) \<and>
            parse_graph_selection py (graph_component_selection a) wi = (Return sel, wp) \<and>
            construct_and_run est (make_config a sel) (var_gen_scheme a) (composition a = single) wp =
              (Inl e, w2))"
  shows "thorough py est a w =
           (Return (), logger_info TotalCost (if e = SystemExit then w2 else logger_exception e w2)) \<and>
         delivered (snd (thorough py est a w)) =
           delivered w2 @
           (if e = SystemExit then [] else map (\<lambda>(s, hl). (s, ERROR, ExceptionRecord e)) (handlers w2)) @
           map (\<lambda>(s, hl). (s, INFO, TotalCost))
             (filter (\<lambda>(s, hl). level_no hl \<le> level_no INFO) (handlers w2))"
proof -
  let ?wi = "snd (initialize (output_dir a) (log_level a) (prev_run a) w)"
  have "select_and_run py est a w1 = (Raise e, w2)"
    using assms(6) by (auto simp: select_and_run_def)
  then have t: "thorough_try py est a ?wi = (Raise e, w2)"
    using assms(3-5) by (simp add: thorough_try_def)
  have r: "thorough py est a w =
           (Return (), logger_info TotalCost (if e = SystemExit then w2 else logger_exception e w2))"
    using thorough_handler[OF assms(1,2), of py est e] t by simp
  show ?thesis
    by (simp add: r logger_info_delivered logger_exception_delivered logger_exception_handlers)
qed

text \<open>An estimator that exits, and one that fails with an exception of its own.\<close>

theorem thorough_catches_estimator_exceptions_witness:
  "thorough example_python (raising SystemExit) example_args example_world =
     (Return (), logger_info TotalCost
        (set_compiledir [''out''] (snd (initialize [''out''] INFO resume example_world)))) \<and>
   thorough example_python (raising (OtherException ''InsufficientPathsError'')) example_args
       example_world =
     (Return (), logger_info TotalCost
        (logger_exception (OtherException ''InsufficientPathsError'')
          (set_compiledir [''out''] (snd (initialize [''out''] INFO resume example_world)))))"
proof -
  let ?w1 = "set_compiledir [''out''] (snd (initialize [''out''] INFO resume example_world))"
  have run: "\<And>e. \<exists>wi wp sel.
       import_Traversome (raising e) ?w1 = (Inr (), wi) \<and>
       parse_graph_selection example_python ''0'' wi = (Return sel, wp) \<and>
       construct_and_run (raising e) (make_config example_args sel) Heuristic
         (unconstrained_composition = single) wp = (Inl e, ?w1)"
    by (simp add: construct_and_run_def raising_def example_selection)
  show ?thesis
    using thorough_catches_estimator_exceptions[where a=example_args and w=example_world
        and ?w1.0="?w1" and ?w2.0="?w1" and py=example_python
        and est="raising SystemExit" and e=SystemExit]
      thorough_catches_estimator_exceptions[where a=example_args and w=example_world
        and ?w1.0="?w1" and ?w2.0="?w1" and py=example_python
        and est="raising (OtherException ''InsufficientPathsError'')"
        and e="OtherException ''InsufficientPathsError''"]
      example_check_inputs example_initialize_resume run
    by (simp add: example_args_fields)
qed

subsection \<open>C9: the shape of \<^verbatim>\<open>--graph-selection\<close>\<close>




subsection \<open>C10: the assertion on the two bounds of the search\<close>



end
